theory Spec2Isabelle
  imports Complex_Main
begin

unbundle bit_operations_syntax

section \<open>The rolling frame-rate estimator\<close>

text \<open>
  The program keeps its clock readings and frame durations as Python floats. In this
  section they are rationals (\<^typ>\<open>rat\<close>) and the arithmetic is exact: this is the
  program wherever no operation rounds, and it decides which samples are pushed and
  evicted. The rounding of each operation is added in the section on double precision
  below.
\<close>

datatype py_error = ValueError

subsection \<open>\<open>collections.deque(maxlen=m)\<close>\<close>

text \<open>
  \<open>deque.append\<close> of a bounded deque appends on the right and, when the deque has then
  more than \<open>maxlen\<close> elements, pops one on the left.
\<close>

definition deque_append :: "nat \<Rightarrow> 'a list \<Rightarrow> 'a \<Rightarrow> 'a list" where
  "deque_append m xs v = (let ys = xs @ [v] in if length ys > m then tl ys else ys)"

subsection \<open>\<open>class FPSCalculator\<close>\<close>

record FPSCalculator =
  frame_times :: "rat list"
  maxlen :: nat
  last_time :: rat

text \<open>
  \<open>__init__(self, queue_size=30)\<close>; the second argument is the reading of \<open>time.time()\<close>.
  A negative \<open>maxlen\<close> makes \<open>deque\<close> raise \<open>ValueError\<close>.
\<close>

definition FPS_QUEUE_SIZE :: int where
  "FPS_QUEUE_SIZE = 30"

definition FPSCalculator_init :: "int \<Rightarrow> rat \<Rightarrow> py_error + FPSCalculator" where
  "FPSCalculator_init queue_size now =
     (if queue_size < 0 then Inl ValueError
      else Inr \<lparr>frame_times = [], maxlen = nat queue_size, last_time = now\<rparr>)"

text \<open>
  \<open>update(self)\<close>; \<open>current_time\<close> is the reading of \<open>time.time()\<close> inside the call.
  The result is the updated object and the returned FPS.
\<close>

definition update :: "FPSCalculator \<Rightarrow> rat \<Rightarrow> FPSCalculator \<times> rat" where
  "update self current_time =
     (let frame_time = current_time - last_time self;
          self1 = self\<lparr>last_time := current_time\<rparr>;
          self2 = (if frame_time > 0
                   then self1\<lparr>frame_times :=
                          deque_append (maxlen self1) (frame_times self1) frame_time\<rparr>
                   else self1)
      in if length (frame_times self2) > 0
         then (let avg_frame_time =
                     sum_list (frame_times self2) / of_nat (length (frame_times self2));
                   fps = (if avg_frame_time > 0 then 1 / avg_frame_time else 0)
               in (self2, fps))
         else (self2, 0))"

text \<open>
  A sequence of \<open>update()\<close> calls, given by the inter-call deltas the clock shows (any
  rational, also zero or negative): the final object and the FPS values returned, in
  call order.
\<close>

fun feed :: "FPSCalculator \<Rightarrow> rat list \<Rightarrow> FPSCalculator \<times> rat list" where
  "feed self [] = (self, [])"
| "feed self (d # ds) =
     (let (self1, fps) = update self (last_time self + d);
          (self2, out) = feed self1 ds
      in (self2, fps # out))"


section \<open>Detection\<close>

subsection \<open>Images and boxes\<close>

text \<open>
  A numpy image: its shape (\<open>rows\<close>, \<open>cols\<close>) and its pixels by row and column. A box is
  the tuple \<open>(x, y, w, h)\<close> of Python integers the program passes around.
\<close>

record 'p image =
  rows :: nat
  cols :: nat
  pix :: "nat \<Rightarrow> nat \<Rightarrow> 'p"

type_synonym box = "int \<times> int \<times> int \<times> int"

text \<open>
  One bound of a Python slice over an axis of length \<open>n\<close>, normalised as
  \<open>slice.indices\<close> does for step 1: a negative index counts from the end, and the
  result is clamped to \<open>0..n\<close>.
\<close>

definition slice_index :: "int \<Rightarrow> nat \<Rightarrow> nat" where
  "slice_index i n = (if i < 0 then nat (max (i + int n) 0) else nat (min i (int n)))"

text \<open>\<open>img[r0:r1, c0:c1]\<close>; an empty range gives an axis of length 0.\<close>

definition crop :: "'p image \<Rightarrow> int \<Rightarrow> int \<Rightarrow> int \<Rightarrow> int \<Rightarrow> 'p image" where
  "crop img r0 r1 c0 c1 =
     (let rs = slice_index r0 (rows img); re = slice_index r1 (rows img);
          cs = slice_index c0 (cols img); ce = slice_index c1 (cols img)
      in \<lparr>rows = re - rs, cols = ce - cs, pix = (\<lambda>r c. pix img (rs + r) (cs + c))\<rparr>)"

subsection \<open>Constants and configuration\<close>

definition DETECTION_SCALE :: rat where
  "DETECTION_SCALE = 1 / 2"

record detect_params =
  scaleFactor :: rat
  minNeighbors :: nat
  minSize :: "nat \<times> nat"

definition face_params :: detect_params where
  "face_params = \<lparr>scaleFactor = 11 / 10, minNeighbors = 5, minSize = (30, 30)\<rparr>"

definition eye_params :: detect_params where
  "eye_params = \<lparr>scaleFactor = 11 / 10, minNeighbors = 3, minSize = (15, 15)\<rparr>"

definition SCREENSHOT_PATH :: string where
  "SCREENSHOT_PATH = ''detection_screenshot.jpg''"

type_synonym colour = "nat \<times> nat \<times> nat"

definition COLOR_FACE :: colour where
  "COLOR_FACE = (0, 255, 0)"

definition COLOR_EYE :: colour where
  "COLOR_EYE = (255, 0, 0)"

subsection \<open>The vision library\<close>

text \<open>
  OpenCV is not part of the program. A cascade classifier is a function from an
  intensity image and the parameters of \<open>detectMultiScale\<close> to the boxes it reports;
  \<open>cv2.resize(img, None, fx, fy)\<close> and \<open>cv2.cvtColor(img, COLOR_BGR2GRAY)\<close> are the
  two fields of the record \<open>cv2\<close>. The program is a function of them.
\<close>

type_synonym 'g cascade = "'g image \<Rightarrow> detect_params \<Rightarrow> box list"

record ('c, 'g) cv2 =
  resize :: "'c image \<Rightarrow> rat \<Rightarrow> rat \<Rightarrow> 'c image"
  cvtColor_BGR2GRAY :: "'c image \<Rightarrow> 'g image"

subsection \<open>\<open>detect_faces_and_eyes\<close>\<close>

text \<open>Python's \<open>int()\<close> of a float: truncation towards zero.\<close>

definition py_int :: "rat \<Rightarrow> int" where
  "py_int q = (if q < 0 then \<lceil>q\<rceil> else \<lfloor>q\<rfloor>)"

text \<open>
  \<open>int(v / DETECTION_SCALE)\<close>, with the scale as a parameter. The division is exact
  here. It is the float division of the program for a scale that is a power of two, as
  \<open>0.5\<close> and \<open>0.25\<close>, and a coordinate below \<open>2^52\<close>; for another scale the float
  quotient is rounded before the truncation and can differ (\<open>int(33 / 0.55)\<close> is 59).
  The scale is positive in every use; at 0 Python raises, which the model does not show.
\<close>

definition rescale_coord :: "rat \<Rightarrow> int \<Rightarrow> int" where
  "rescale_coord scale v = py_int (of_int v / scale)"

definition rescale_box :: "rat \<Rightarrow> box \<Rightarrow> box" where
  "rescale_box scale b =
     (case b of (x, y, w, h) \<Rightarrow>
        (rescale_coord scale x, rescale_coord scale y,
         rescale_coord scale w, rescale_coord scale h))"

text \<open>
  The body of the loop over the faces: the crop of the full-resolution intensity image, the
  eye classifier on it, and the eye boxes moved to frame coordinates. The crop is
  returned too: it is the argument of this invocation of the eye classifier.
\<close>

definition eyes_in_face_region :: "'g cascade \<Rightarrow> 'g image \<Rightarrow> box \<Rightarrow> box list \<times> 'g image" where
  "eyes_in_face_region eye_cascade gray_full f =
     (case f of (fx, fy, fw, fh) \<Rightarrow>
        (let roi_gray = crop gray_full fy (fy + fh) fx (fx + fw);
             eyes_in_face = eye_cascade roi_gray eye_params
         in (map (\<lambda>(ex, ey, ew, eh). (fx + ex, fy + ey, ew, eh)) eyes_in_face, roi_gray)))"

fun eye_pass :: "'g cascade \<Rightarrow> 'g image \<Rightarrow> box list \<Rightarrow> box list \<times> 'g image list" where
  "eye_pass eye_cascade gray_full [] = ([], [])"
| "eye_pass eye_cascade gray_full (f # fs) =
     (let (found, roi) = eyes_in_face_region eye_cascade gray_full f;
          (eyes, rois) = eye_pass eye_cascade gray_full fs
      in (found @ eyes, roi # rois))"

text \<open>
  The result is \<open>(faces, eyes)\<close> as in the source, and third the list of images the eye
  classifier was invoked on, in call order.
\<close>

definition detect_faces_and_eyes ::
  "('c, 'g) cv2 \<Rightarrow> 'c image \<Rightarrow> 'g cascade \<Rightarrow> 'g cascade \<Rightarrow> box list \<times> box list \<times> 'g image list" where
  "detect_faces_and_eyes cv frame face_cascade eye_cascade =
     (let small_frame = resize cv frame DETECTION_SCALE DETECTION_SCALE;
          gray = cvtColor_BGR2GRAY cv small_frame;
          faces0 = face_cascade gray face_params;
          faces = map (rescale_box DETECTION_SCALE) faces0;
          gray_full = cvtColor_BGR2GRAY cv frame;
          (eyes, rois) = eye_pass eye_cascade gray_full faces
      in (faces, eyes, rois))"

subsection \<open>What the library is assumed to do\<close>

text \<open>
  A classifier reports windows of the image it is given: non-negative origin and size,
  inside the image. The colour conversion keeps the shape.
\<close>

definition box_within :: "box \<Rightarrow> nat \<Rightarrow> nat \<Rightarrow> bool" where
  "box_within b wd ht =
     (case b of (x, y, w, h) \<Rightarrow>
        0 \<le> x \<and> 0 \<le> y \<and> 0 \<le> w \<and> 0 \<le> h \<and> x + w \<le> int wd \<and> y + h \<le> int ht)"

definition cascade_ok :: "'g cascade \<Rightarrow> bool" where
  "cascade_ok c = (\<forall>img p. \<forall>b \<in> set (c img p). box_within b (cols img) (rows img))"

definition cvtColor_ok :: "('c, 'g) cv2 \<Rightarrow> bool" where
  "cvtColor_ok cv =
     (\<forall>img. rows (cvtColor_BGR2GRAY cv img) = rows img \<and> cols (cvtColor_BGR2GRAY cv img) = cols img)"

text \<open>Box \<open>e\<close> lies inside box \<open>f\<close>.\<close>

definition box_inside :: "box \<Rightarrow> box \<Rightarrow> bool" where
  "box_inside e f =
     (case e of (ex, ey, ew, eh) \<Rightarrow> case f of (fx, fy, fw, fh) \<Rightarrow>
        fx \<le> ex \<and> fy \<le> ey \<and> ex + ew \<le> fx + fw \<and> ey + eh \<le> fy + fh)"

subsection \<open>A library instance for running the model\<close>

text \<open>
  \<open>cvRound\<close>, by which \<open>cv2.resize\<close> computes the output size
  \<open>(round(fx * cols), round(fy * rows))\<close>: to the nearest integer, a half to the even one.
\<close>

definition cv_round :: "rat \<Rightarrow> int" where
  "cv_round q =
     (let f = \<lfloor>q\<rfloor>; d = q - of_int f
      in if d < 1 / 2 then f else if 1 / 2 < d then f + 1 else if even f then f else f + 1)"

text \<open>A resize with that output size; it samples the nearest source pixel.\<close>

definition stub_resize :: "'p image \<Rightarrow> rat \<Rightarrow> rat \<Rightarrow> 'p image" where
  "stub_resize img fx fy =
     \<lparr>rows = nat (cv_round (of_nat (rows img) * fy)),
      cols = nat (cv_round (of_nat (cols img) * fx)),
      pix = (\<lambda>r c. pix img (nat (py_int (of_nat r / fy))) (nat (py_int (of_nat c / fx))))\<rparr>"

definition stub_cv2 :: "(nat, nat) cv2" where
  "stub_cv2 = \<lparr>resize = stub_resize, cvtColor_BGR2GRAY = (\<lambda>img. img)\<rparr>"

definition blank_frame :: "nat \<Rightarrow> nat \<Rightarrow> nat image" where
  "blank_frame h w = \<lparr>rows = h, cols = w, pix = (\<lambda>r c. 0)\<rparr>"

text \<open>
  Classifier stubs. \<open>stub_none\<close> finds nothing; \<open>stub_corner n\<close> reports one \<open>n\<close> by \<open>n\<close>
  window at the top right corner of an image that has room for it; \<open>stub_centre\<close>
  reports the centre quarter of an image of at least 4 by 4 pixels; \<open>stub_repeat n\<close>
  reports \<open>n\<close> times the same 30 by 30 window.
\<close>

definition stub_none :: "nat cascade" where
  "stub_none img p = []"

definition stub_corner :: "nat \<Rightarrow> nat cascade" where
  "stub_corner n img p =
     (if n \<le> cols img \<and> n \<le> rows img then [(int (cols img) - int n, 0, int n, int n)] else [])"

definition stub_centre :: "nat cascade" where
  "stub_centre img p =
     (if 4 \<le> cols img \<and> 4 \<le> rows img
      then [(int (cols img div 4), int (rows img div 4), int (cols img div 2), int (rows img div 2))]
      else [])"


definition stub_repeat :: "nat \<Rightarrow> nat cascade" where
  "stub_repeat n img p =
     (if 30 \<le> cols img \<and> 30 \<le> rows img then replicate n (0, 0, 30, 30) else [])"

section \<open>The frame-rate estimator in double precision\<close>

subsection \<open>Rounding to a double\<close>

text \<open>
  A Python float is an IEEE 754 double: 53 significant bits, and each arithmetic operation
  gives the exact result rounded to the nearest double, a tie to the one with an even
  significand. A double is modelled by the rational it denotes. Overflow, subnormal
  numbers, infinities and NaN are not modelled: \<open>round_double\<close> rounds as if the exponent
  range had no bounds, which is what the hardware does for magnitudes between
  \<open>2^-1022\<close> and \<open>2^1024\<close>.
\<close>





subsection \<open>\<open>FPSCalculator.update\<close> with every operation rounded\<close>

text \<open>
  \<open>sum(self.frame_times)\<close> adds from the left, starting from the integer 0, and rounds
  after each addition (CPython up to 3.11; from 3.12 on \<open>sum\<close> carries a compensation term
  and rounds once more at the end). \<open>fl\<close> is the rounding of the arithmetic: with
  \<open>round_double\<close> it is Python's, with the identity it is exact arithmetic.
\<close>

definition fl_sum :: "(rat \<Rightarrow> rat) \<Rightarrow> rat list \<Rightarrow> rat" where
  "fl_sum fl xs = foldl (\<lambda>acc x. fl (acc + x)) 0 xs"

text \<open>
  \<open>update(self)\<close> as above, with the subtraction, the sum, the division by the length and
  the reciprocal rounded by \<open>fl\<close>. The clock reading and the stored samples are doubles.
\<close>

definition update_float :: "(rat \<Rightarrow> rat) \<Rightarrow> FPSCalculator \<Rightarrow> rat \<Rightarrow> FPSCalculator \<times> rat" where
  "update_float fl self current_time =
     (let frame_time = fl (current_time - last_time self);
          self1 = self\<lparr>last_time := current_time\<rparr>;
          self2 = (if frame_time > 0
                   then self1\<lparr>frame_times :=
                          deque_append (maxlen self1) (frame_times self1) frame_time\<rparr>
                   else self1)
      in if length (frame_times self2) > 0
         then (let avg_frame_time =
                     fl (fl_sum fl (frame_times self2) / of_nat (length (frame_times self2)));
                   fps = (if avg_frame_time > 0 then fl (1 / avg_frame_time) else 0)
               in (self2, fps))
         else (self2, 0))"



section \<open>Rendering\<close>

text \<open>
  The two drawing functions change the frame in place through calls of the library. The
  model gives the list of those calls. The text of a statistics line is kept as its
  kind and its number; the decimal formatting is not modelled.
\<close>

datatype stat_line =
    Faces_line nat
  | Eyes_line nat
  | FPS_line rat
  | Processing_line rat
  | Empty_line
  | Quit_hint
  | Screenshot_hint

datatype draw_call =
    Rectangle "int \<times> int" "int \<times> int" colour int
  | Blend_panel
  | PutText stat_line "int \<times> int"

definition draw_detections :: "box list \<Rightarrow> box list \<Rightarrow> draw_call list" where
  "draw_detections faces eyes =
     map (\<lambda>(x, y, w, h). Rectangle (x, y) (x + w, y + h) COLOR_FACE 2) faces
     @ map (\<lambda>(x, y, w, h). Rectangle (x, y) (x + w, y + h) COLOR_EYE 2) eyes"

definition draw_statistics :: "nat \<Rightarrow> nat \<Rightarrow> rat \<Rightarrow> rat \<Rightarrow> draw_call list" where
  "draw_statistics face_count eye_count fps processing_time =
     (let line_height = 25;
          stats = [Faces_line face_count, Eyes_line eye_count, FPS_line fps,
                   Processing_line processing_time, Empty_line, Quit_hint, Screenshot_hint]
      in Blend_panel
         # map (\<lambda>(i, stat). PutText stat (20, 30 + int i * line_height))
             (zip [0..<length stats] stats))"

section \<open>The capture loop of \<open>main\<close>\<close>

text \<open>
  What one iteration reads from outside: the result of \<open>cap.read()\<close> (\<open>None\<close> when
  \<open>ret\<close> is false), the readings of \<open>time.time()\<close> in the order the iteration takes
  them, and the result of \<open>cv2.waitKey(1)\<close>. A reading belongs to a statement that the
  iteration may not reach; it is then not used.
\<close>

record 'c tick =
  cap_read :: "'c image option"
  clock_process_start :: rat
  clock_process_end :: rat
  clock_update :: rat
  wait_key :: int
  clock_summary :: rat

text \<open>
  What the loop does to the outside, in order. An invocation of the eye classifier is
  recorded with the shape of the crop it is given.
\<close>

datatype event =
    Warn_capture_failed
  | Face_classifier_call
  | Eye_classifier_call nat nat
  | Call_draw_detections "box list" "box list"
  | Call_draw_statistics nat nat rat rat
  | Imshow
  | Print_quit
  | Imwrite string
  | Print_screenshot_saved
  | Print_performance rat rat rat nat nat
  | Release_camera
  | Destroy_all_windows
  | Print_session nat rat rat

record loop_state =
  frame_count :: nat
  fps_calculator :: FPSCalculator
  start_time :: rat

text \<open>
  One pass through the body of \<open>while True\<close>. The result says whether the loop goes on
  (\<open>True\<close>: the end of the body or \<open>continue\<close>; \<open>False\<close>: \<open>break\<close>), and gives the
  variables and the events of the pass. An exception raised by the library or by the
  user's interrupt is outside the model.
\<close>

definition iteration ::
  "('c, 'g) cv2 \<Rightarrow> 'g cascade \<Rightarrow> 'g cascade \<Rightarrow> loop_state \<Rightarrow> 'c tick
     \<Rightarrow> bool \<times> loop_state \<times> event list" where
  "iteration cv face_cascade eye_cascade st env =
     (case cap_read env of
        None \<Rightarrow> (True, st, [Warn_capture_failed])
      | Some frame \<Rightarrow>
         (let process_start = clock_process_start env;
              (faces, eyes, rois) = detect_faces_and_eyes cv frame face_cascade eye_cascade;
              processing_time = (clock_process_end env - process_start) * 1000;
              (calc, fps) = update (fps_calculator st) (clock_update env);
              face_count = length faces;
              eye_count = length eyes;
              display_face_count = min face_count 5;
              shown =
                Face_classifier_call
                # map (\<lambda>roi. Eye_classifier_call (rows roi) (cols roi)) rois
                @ [Call_draw_detections faces eyes,
                   Call_draw_statistics display_face_count eye_count fps processing_time,
                   Imshow];
              key = wait_key env AND 255;
              st1 = st\<lparr>fps_calculator := calc\<rparr>
          in if key = of_char CHR ''q'' then (False, st1, shown @ [Print_quit])
             else
              (let saved = (if key = of_char CHR ''s''
                            then [Imwrite SCREENSHOT_PATH, Print_screenshot_saved] else []);
                   st2 = st1\<lparr>frame_count := frame_count st1 + 1\<rparr>;
                   summary =
                     (if frame_count st2 mod 100 = 0
                      then (let elapsed = clock_summary env - start_time st2;
                                avg_fps = (if elapsed > 0
                                           then of_nat (frame_count st2) / elapsed else 0)
                            in [Print_performance avg_fps fps processing_time
                                  face_count eye_count])
                      else [])
               in (True, st2, shown @ saved @ summary))))"

text \<open>
  The loop over a finite script of ticks. It stops at the first \<open>break\<close>; with the script
  used up and no \<open>break\<close> the loop is still running (\<open>True\<close>).
\<close>

fun run_loop ::
  "('c, 'g) cv2 \<Rightarrow> 'g cascade \<Rightarrow> 'g cascade \<Rightarrow> loop_state \<Rightarrow> 'c tick list
     \<Rightarrow> bool \<times> loop_state \<times> event list" where
  "run_loop cv face_cascade eye_cascade st [] = (True, st, [])"
| "run_loop cv face_cascade eye_cascade st (env # envs) =
     (case iteration cv face_cascade eye_cascade st env of
        (False, st1, evs) \<Rightarrow> (False, st1, evs)
      | (True, st1, evs) \<Rightarrow>
          (case run_loop cv face_cascade eye_cascade st1 envs of
             (go, st2, evs2) \<Rightarrow> (go, st2, evs @ evs2)))"

text \<open>The \<open>finally\<close> block; \<open>now\<close> is the reading of \<open>time.time()\<close> for the totals.\<close>

definition finally_block :: "loop_state \<Rightarrow> rat \<Rightarrow> event list" where
  "finally_block st now =
     [Release_camera, Destroy_all_windows]
     @ (if frame_count st > 0
        then (let total_time = now - start_time st;
                  avg_fps = (if total_time > 0 then of_nat (frame_count st) / total_time else 0)
              in [Print_session (frame_count st) total_time avg_fps])
        else [])"

text \<open>The variables of \<open>main\<close> on entry to the loop, with the two clock readings.\<close>

definition loop_entry :: "rat \<Rightarrow> rat \<Rightarrow> py_error + loop_state" where
  "loop_entry now_calc now_start =
     (case FPSCalculator_init FPS_QUEUE_SIZE now_calc of
        Inl e \<Rightarrow> Inl e
      | Inr c \<Rightarrow> Inr \<lparr>frame_count = 0, fps_calculator = c, start_time = now_start\<rparr>)"

definition stub_tick :: "nat image option \<Rightarrow> int \<Rightarrow> rat \<Rightarrow> nat tick" where
  "stub_tick r k t =
     \<lparr>cap_read = r, clock_process_start = t, clock_process_end = t + 1 / 100,
      clock_update = t + 1 / 100, wait_key = k, clock_summary = t + 2 / 100\<rparr>"

definition stub_state :: "nat \<Rightarrow> loop_state" where
  "stub_state n =
     \<lparr>frame_count = n, fps_calculator = \<lparr>frame_times = [], maxlen = 30, last_time = 0\<rparr>,
      start_time = 0\<rparr>"

subsection \<open>Reading the events of an iteration\<close>

text \<open>
  The events of an iteration that has a frame, up to \<open>cv2.imshow\<close>, as a function of the
  detection result, the FPS and the processing time; and the test for a periodic
  performance line.
\<close>

definition shown_events ::
  "box list \<times> box list \<times> 'g image list \<Rightarrow> rat \<Rightarrow> rat \<Rightarrow> event list" where
  "shown_events d fps processing_time =
     Face_classifier_call
     # map (\<lambda>roi. Eye_classifier_call (rows roi) (cols roi)) (snd (snd d))
     @ [Call_draw_detections (fst d) (fst (snd d)),
        Call_draw_statistics (min (length (fst d)) 5) (length (fst (snd d))) fps processing_time,
        Imshow]"

fun is_performance :: "event \<Rightarrow> bool" where
  "is_performance (Print_performance a b c d e) = True"
| "is_performance _ = False"


section \<open>Properties of the frame-rate estimator\<close>

lemma update_window:
  "frame_times (fst (update s t)) =
     (if t - last_time s > 0 then deque_append (maxlen s) (frame_times s) (t - last_time s)
      else frame_times s)"
  by (simp add: update_def Let_def)

lemma update_maxlen: "maxlen (fst (update s t)) = maxlen s"
  by (simp add: update_def Let_def)

lemma update_last_time: "last_time (fst (update s t)) = t"
  by (simp add: update_def Let_def)

lemma update_fps:
  "snd (update s t) =
     (let w = frame_times (fst (update s t))
      in if w \<noteq> [] \<and> sum_list w / of_nat (length w) > 0
         then 1 / (sum_list w / of_nat (length w)) else 0)"
  by (simp add: update_def Let_def)

lemma deque_append_length: "length xs \<le> m \<Longrightarrow> length (deque_append m xs v) \<le> m"
  by (auto simp: deque_append_def Let_def)



lemma feed_Cons:
  "feed s (d # ds) =
     (fst (feed (fst (update s (last_time s + d))) ds),
      snd (update s (last_time s + d)) # snd (feed (fst (update s (last_time s + d))) ds))"
  by (simp add: split_beta Let_def)

declare feed.simps(2) [simp del]

lemma feed_maxlen: "maxlen (fst (feed s ds)) = maxlen s"
  by (induction ds arbitrary: s) (simp_all add: feed_Cons update_maxlen)

lemma feed_bounded:
  "length (frame_times s) \<le> maxlen s \<Longrightarrow> length (frame_times (fst (feed s ds))) \<le> maxlen s"
proof (induction ds arbitrary: s)
  case Nil
  then show ?case by simp
next
  case (Cons d ds)
  let ?s1 = "fst (update s (last_time s + d))"
  have "length (frame_times ?s1) \<le> maxlen ?s1"
    using Cons.prems by (simp add: update_window update_maxlen deque_append_length)
  from Cons.IH [OF this] show ?case
    by (simp add: feed_Cons update_maxlen)
qed

text \<open>
  Claim C5. A call of \<open>update()\<close> whose delta is zero or negative leaves the window as
  it is, and after any call such a call returns the FPS that call returned.
\<close>

theorem nonpositive_delta_changes_nothing:
  "(t \<le> last_time s \<longrightarrow>
      frame_times (fst (update s t)) = frame_times s \<and> maxlen (fst (update s t)) = maxlen s)
   \<and> (t2 \<le> t1 \<longrightarrow>
      frame_times (fst (update (fst (update s t1)) t2)) = frame_times (fst (update s t1))
      \<and> snd (update (fst (update s t1)) t2) = snd (update s t1))"
proof (intro conjI impI)
  assume "t \<le> last_time s"
  then show "frame_times (fst (update s t)) = frame_times s"
    by (simp add: update_window)
  show "maxlen (fst (update s t)) = maxlen s"
    by (rule update_maxlen)
next
  assume le: "t2 \<le> t1"
  let ?s1 = "fst (update s t1)"
  from le show same: "frame_times (fst (update ?s1 t2)) = frame_times ?s1"
    by (simp add: update_window [of ?s1] update_last_time)
  show "snd (update ?s1 t2) = snd (update s t1)"
    unfolding update_fps [of ?s1 t2] update_fps [of s t1] same ..
qed

theorem nonpositive_delta_changes_nothing_witness:
  "frame_times (fst (update \<lparr>frame_times = [1/2], maxlen = 3, last_time = 10\<rparr> 10)) = [1/2]
   \<and> frame_times (fst (update (fst (update \<lparr>frame_times = [1/2], maxlen = 3, last_time = 10\<rparr> 11)) 9)) = [1/2, 1]
   \<and> snd (update (fst (update \<lparr>frame_times = [1/2], maxlen = 3, last_time = 10\<rparr> 11)) 9) = 4 / 3
   \<and> snd (update \<lparr>frame_times = [1/2], maxlen = 3, last_time = 10\<rparr> 11) = 4 / 3"
  using nonpositive_delta_changes_nothing
          [of 10 "\<lparr>frame_times = [1/2], maxlen = 3, last_time = 10\<rparr>" 9 11]
  by (simp add: update_def Let_def deque_append_def)

lemma init_state:
  "FPSCalculator_init c now = Inr s0 \<Longrightarrow> frame_times s0 = [] \<and> maxlen s0 = nat c \<and> last_time s0 = now"
  by (auto simp: FPSCalculator_init_def split: if_splits)

text \<open>
  Claim C6. After any sequence of \<open>update()\<close> calls on an \<open>FPSCalculator\<close> constructed
  with capacity \<open>c\<close> the window holds at most \<open>c\<close> samples; a push into a full window
  keeps it full, drops the oldest sample and puts the new one last.
\<close>

theorem window_never_exceeds_capacity:
  assumes "FPSCalculator_init c now = Inr s0" and "s = fst (feed s0 ds)"
  shows "length (frame_times s) \<le> nat c \<and> maxlen s = nat c
         \<and> (length (frame_times s) = nat c \<and> last_time s < t \<longrightarrow>
              length (frame_times (fst (update s t))) = nat c
              \<and> (\<forall>old rest. frame_times s = old # rest \<longrightarrow>
                    frame_times (fst (update s t)) = rest @ [t - last_time s]))"
proof -
  from init_state [OF assms(1)] have s0: "frame_times s0 = []" "maxlen s0 = nat c"
    by simp_all
  have m: "maxlen s = nat c"
    by (simp add: assms(2) feed_maxlen s0)
  have "length (frame_times s0) \<le> maxlen s0" by (simp add: s0)
  from feed_bounded [OF this, of ds] have b: "length (frame_times s) \<le> nat c"
    by (simp add: assms(2) s0)
  have e: "length (frame_times (fst (update s t))) = nat c
           \<and> (\<forall>old rest. frame_times s = old # rest \<longrightarrow>
                  frame_times (fst (update s t)) = rest @ [t - last_time s])"
    if "length (frame_times s) = nat c" "last_time s < t"
    using that m by (auto simp: update_window deque_append_def Let_def)
  from m b e show ?thesis by blast
qed

theorem window_never_exceeds_capacity_witness:
  "FPSCalculator_init 2 0 = Inr \<lparr>frame_times = [], maxlen = 2, last_time = 0\<rparr>
   \<and> fst (feed \<lparr>frame_times = [], maxlen = 2, last_time = 0\<rparr> [1, 2, 3]) =
        \<lparr>frame_times = [2, 3], maxlen = 2, last_time = 6\<rparr>
   \<and> frame_times (fst (update \<lparr>frame_times = [2, 3], maxlen = 2, last_time = 6\<rparr> 10)) = [3, 4]"
proof -
  have i: "FPSCalculator_init 2 0 = Inr \<lparr>frame_times = [], maxlen = 2, last_time = 0\<rparr>"
    by (simp add: FPSCalculator_init_def)
  have f: "\<lparr>frame_times = [2, 3], maxlen = 2, last_time = 6\<rparr> =
             fst (feed \<lparr>frame_times = [], maxlen = 2, last_time = 0\<rparr> [1, 2, 3])"
    by (simp add: feed_Cons update_def Let_def deque_append_def)
  from window_never_exceeds_capacity [OF i f, of 10]
  have "frame_times (fst (update \<lparr>frame_times = [2, 3], maxlen = 2, last_time = 6\<rparr> 10)) = [3, 4]"
    by simp
  with i f [symmetric] show ?thesis
    by (simp only: simp_thms)
qed

section \<open>Properties of the estimator in double precision\<close>





lemma foldl_plus_sum_list: "foldl (\<lambda>acc x. acc + x) a xs = a + sum_list (xs :: rat list)"
  by (induction xs arbitrary: a) (simp_all add: algebra_simps)

lemma fl_sum_exact: "fl_sum (\<lambda>x. x) xs = sum_list xs"
  by (simp add: fl_sum_def foldl_plus_sum_list)

lemma update_float_exact: "update_float (\<lambda>x. x) s t = update s t"
  by (simp add: update_float_def update_def fl_sum_exact Let_def)











section \<open>Properties of the detection\<close>

lemma py_int_of_int: "py_int (of_int k) = k"
  by (simp add: py_int_def)

lemma rescale_coord_half: "rescale_coord DETECTION_SCALE v = 2 * v"
proof -
  have "(of_int v :: rat) / (1 / 2) = of_int (2 * v)" by simp
  then show ?thesis
    unfolding rescale_coord_def DETECTION_SCALE_def by (simp only: py_int_of_int)
qed

lemma rescale_box_half: "rescale_box DETECTION_SCALE (x, y, w, h) = (2 * x, 2 * y, 2 * w, 2 * h)"
  by (simp add: rescale_box_def rescale_coord_half)

lemma eye_pass_Cons:
  "eye_pass ec g (f # fs) =
     (fst (eyes_in_face_region ec g f) @ fst (eye_pass ec g fs),
      snd (eyes_in_face_region ec g f) # snd (eye_pass ec g fs))"
  by (simp add: split_beta Let_def)

declare eye_pass.simps(2) [simp del]

lemma eye_pass_eyes:
  "fst (eye_pass ec g fs) = concat (map (\<lambda>f. fst (eyes_in_face_region ec g f)) fs)"
  by (induction fs) (simp_all add: eye_pass_Cons)

lemma eye_pass_rois:
  "snd (eye_pass ec g fs) = map (\<lambda>f. snd (eyes_in_face_region ec g f)) fs"
  by (induction fs) (simp_all add: eye_pass_Cons)

lemma detect_faces:
  "fst (detect_faces_and_eyes cv frame fc ec) =
     map (rescale_box DETECTION_SCALE)
       (fc (cvtColor_BGR2GRAY cv (resize cv frame DETECTION_SCALE DETECTION_SCALE)) face_params)"
  by (simp add: detect_faces_and_eyes_def Let_def split_beta)

lemma detect_eyes:
  "fst (snd (detect_faces_and_eyes cv frame fc ec)) =
     fst (eye_pass ec (cvtColor_BGR2GRAY cv frame) (fst (detect_faces_and_eyes cv frame fc ec)))"
  by (simp add: detect_faces_and_eyes_def Let_def split_beta)

lemma detect_rois:
  "snd (snd (detect_faces_and_eyes cv frame fc ec)) =
     snd (eye_pass ec (cvtColor_BGR2GRAY cv frame) (fst (detect_faces_and_eyes cv frame fc ec)))"
  by (simp add: detect_faces_and_eyes_def Let_def split_beta)

lemma slice_span_le:
  "0 \<le> a \<Longrightarrow> 0 \<le> l \<Longrightarrow> int (slice_index (a + l) n - slice_index a n) \<le> l"
  by (auto simp: slice_index_def)

lemma crop_shape_le:
  assumes "0 \<le> fx" "0 \<le> fy" "0 \<le> fw" "0 \<le> fh"
  shows "int (cols (crop g fy (fy + fh) fx (fx + fw))) \<le> fw"
    and "int (rows (crop g fy (fy + fh) fx (fx + fw))) \<le> fh"
  using assms by (simp_all add: crop_def Let_def slice_span_le)

lemma eyes_in_face_inside:
  assumes ok: "cascade_ok ec" and f: "0 \<le> fx" "0 \<le> fy" "0 \<le> fw" "0 \<le> fh"
    and e: "e \<in> set (fst (eyes_in_face_region ec g (fx, fy, fw, fh)))"
  shows "box_inside e (fx, fy, fw, fh)"
proof -
  let ?roi = "crop g fy (fy + fh) fx (fx + fw)"
  from e obtain ex ey ew eh where b: "(ex, ey, ew, eh) \<in> set (ec ?roi eye_params)"
    and e_eq: "e = (fx + ex, fy + ey, ew, eh)"
    by (auto simp: eyes_in_face_region_def Let_def)
  from ok b have "box_within (ex, ey, ew, eh) (cols ?roi) (rows ?roi)"
    unfolding cascade_ok_def by blast
  then have w: "0 \<le> ex" "0 \<le> ey" "ex + ew \<le> int (cols ?roi)" "ey + eh \<le> int (rows ?roi)"
    by (simp_all add: box_within_def)
  from crop_shape_le [OF f, of g] w show ?thesis
    by (simp add: e_eq box_inside_def)
qed

lemma faces_nonneg:
  assumes ok: "cascade_ok fc" and f: "f \<in> set (fst (detect_faces_and_eyes cv frame fc ec))"
  obtains fx fy fw fh where "f = (fx, fy, fw, fh)" "0 \<le> fx" "0 \<le> fy" "0 \<le> fw" "0 \<le> fh"
proof -
  let ?gray = "cvtColor_BGR2GRAY cv (resize cv frame DETECTION_SCALE DETECTION_SCALE)"
  from f obtain b where b: "b \<in> set (fc ?gray face_params)" and fb: "f = rescale_box DETECTION_SCALE b"
    by (auto simp: detect_faces)
  obtain x y w h where bx: "b = (x, y, w, h)" by (cases b) auto
  from ok b have "box_within b (cols ?gray) (rows ?gray)"
    unfolding cascade_ok_def by blast
  then have "0 \<le> x" "0 \<le> y" "0 \<le> w" "0 \<le> h"
    by (simp_all add: bx box_within_def)
  then show thesis
    using that [of "2 * x" "2 * y" "2 * w" "2 * h"] by (simp add: fb bx rescale_box_half)
qed

text \<open>
  Claim C1. With classifiers that report windows of the image they are given, the eye
  list is, face by face, the eye boxes found in that face's crop, and each of them lies
  inside its face box in frame coordinates: \<open>e.x \<ge> f.x\<close>, \<open>e.y \<ge> f.y\<close>,
  \<open>e.x + e.w \<le> f.x + f.w\<close>, \<open>e.y + e.h \<le> f.y + f.h\<close>.
\<close>

theorem eyes_inside_their_face:
  assumes "cascade_ok face_cascade" and "cascade_ok eye_cascade"
  shows "case detect_faces_and_eyes cv frame face_cascade eye_cascade of
           (faces, eyes, rois) \<Rightarrow>
             eyes = concat (map (\<lambda>f. fst (eyes_in_face_region eye_cascade
                                             (cvtColor_BGR2GRAY cv frame) f)) faces)
             \<and> (\<forall>f \<in> set faces.
                  \<forall>e \<in> set (fst (eyes_in_face_region eye_cascade
                                     (cvtColor_BGR2GRAY cv frame) f)).
                    box_inside e f)"
proof -
  let ?d = "detect_faces_and_eyes cv frame face_cascade eye_cascade"
  let ?g = "cvtColor_BGR2GRAY cv frame"
  have 1: "fst (snd ?d) = concat (map (\<lambda>f. fst (eyes_in_face_region eye_cascade ?g f)) (fst ?d))"
    by (simp only: detect_eyes eye_pass_eyes)
  have 2: "box_inside e f"
    if f: "f \<in> set (fst ?d)" and e: "e \<in> set (fst (eyes_in_face_region eye_cascade ?g f))" for e f
  proof -
    from assms(1) f obtain fx fy fw fh
      where "f = (fx, fy, fw, fh)" "0 \<le> fx" "0 \<le> fy" "0 \<le> fw" "0 \<le> fh"
      by (rule faces_nonneg)
    with eyes_in_face_inside [OF assms(2), of fx fy fw fh e ?g] e show ?thesis
      by simp
  qed
  from 1 2 show ?thesis
    by (simp add: split_beta)
qed

lemma stub_corner_ok: "cascade_ok (stub_corner n)"
  by (simp add: cascade_ok_def stub_corner_def box_within_def)

lemma stub_centre_ok: "cascade_ok stub_centre"
  by (auto simp: cascade_ok_def stub_centre_def box_within_def)

lemma stub_none_ok: "cascade_ok stub_none"
  by (simp add: cascade_ok_def stub_none_def)

theorem eyes_inside_their_face_witness:
  "cascade_ok (stub_corner 30) \<and> cascade_ok stub_centre
   \<and> fst (detect_faces_and_eyes stub_cv2 (blank_frame 480 640) (stub_corner 30) stub_centre)
       = [(580, 0, 60, 60)]
   \<and> fst (snd (detect_faces_and_eyes stub_cv2 (blank_frame 480 640) (stub_corner 30) stub_centre))
       = [(595, 15, 30, 30)]
   \<and> box_inside (595, 15, 30, 30) (580, 0, 60, 60)"
proof -
  let ?d = "detect_faces_and_eyes stub_cv2 (blank_frame 480 640) (stub_corner 30) stub_centre"
  have f: "fst ?d = [(580, 0, 60, 60)]"
    by code_simp
  have e: "fst (snd ?d) = [(595, 15, 30, 30)]"
    by code_simp
  from eyes_inside_their_face
         [where face_cascade = "stub_corner 30" and eye_cascade = stub_centre
            and cv = stub_cv2 and frame = "blank_frame 480 640",
          OF stub_corner_ok stub_centre_ok]
  have "\<forall>f \<in> set (fst ?d).
          \<forall>e \<in> set (fst (eyes_in_face_region stub_centre
                             (cvtColor_BGR2GRAY stub_cv2 (blank_frame 480 640)) f)).
            box_inside e f"
    and "fst (snd ?d) = concat (map (\<lambda>f. fst (eyes_in_face_region stub_centre
                             (cvtColor_BGR2GRAY stub_cv2 (blank_frame 480 640)) f)) (fst ?d))"
    by (simp_all add: split_beta)
  then have a: "\<forall>e \<in> set (fst (eyes_in_face_region stub_centre
                             (cvtColor_BGR2GRAY stub_cv2 (blank_frame 480 640)) (580, 0, 60, 60))).
            box_inside e (580, 0, 60, 60)"
    and b: "fst (eyes_in_face_region stub_centre
              (cvtColor_BGR2GRAY stub_cv2 (blank_frame 480 640)) (580, 0, 60, 60)) = [(595, 15, 30, 30)]"
    unfolding f e by simp_all
  from a have "box_inside (595, 15, 30, 30) (580, 0, 60, 60)"
    unfolding b by simp
  with f e stub_corner_ok stub_centre_ok show ?thesis
    by simp
qed

text \<open>
  Claim C7. When the face classifier reports no face, \<open>detect_faces_and_eyes\<close> returns
  an empty face list and an empty eye list, and the eye classifier is not invoked.
\<close>

theorem no_faces_no_eye_search:
  "face_cascade (cvtColor_BGR2GRAY cv (resize cv frame DETECTION_SCALE DETECTION_SCALE))
       face_params = []
   \<Longrightarrow> detect_faces_and_eyes cv frame face_cascade eye_cascade = ([], [], [])"
  by (simp add: detect_faces_and_eyes_def Let_def)

theorem no_faces_no_eye_search_witness:
  "stub_none (cvtColor_BGR2GRAY stub_cv2 (resize stub_cv2 (blank_frame 480 640) DETECTION_SCALE DETECTION_SCALE))
       face_params = []
   \<and> detect_faces_and_eyes stub_cv2 (blank_frame 480 640) stub_none stub_centre = ([], [], [])"
proof -
  have h: "stub_none (cvtColor_BGR2GRAY stub_cv2
             (resize stub_cv2 (blank_frame 480 640) DETECTION_SCALE DETECTION_SCALE)) face_params = []"
    by (simp add: stub_none_def)
  from no_faces_no_eye_search [of stub_none stub_cv2 "blank_frame 480 640" stub_centre, OF h] h
  show ?thesis by simp
qed

lemma scaled_back_fits:
  "(of_nat a :: rat) / DETECTION_SCALE \<le> of_nat b \<Longrightarrow> 2 * int a \<le> int b"
proof -
  assume "(of_nat a :: rat) / DETECTION_SCALE \<le> of_nat b"
  then have "(of_nat (2 * a) :: rat) \<le> of_nat b"
    by (simp add: DETECTION_SCALE_def)
  then have "2 * a \<le> b"
    by (simp only: of_nat_le_iff)
  then show ?thesis by simp
qed

text \<open>
  Claim C2, amended. The rescaled face boxes lie within the frame when the downscaled
  copy, scaled back by the inverse of the factor, is no larger than the frame in either
  direction (so for every frame of even width and height, as 640 by 480), for a face
  classifier that reports windows of the image it is given and a colour conversion that
  keeps the shape.
\<close>

theorem faces_within_frame:
  assumes ok: "cascade_ok face_cascade" and cvt: "cvtColor_ok cv"
    and c: "(of_nat (cols (resize cv frame DETECTION_SCALE DETECTION_SCALE)) :: rat) / DETECTION_SCALE
              \<le> of_nat (cols frame)"
    and r: "(of_nat (rows (resize cv frame DETECTION_SCALE DETECTION_SCALE)) :: rat) / DETECTION_SCALE
              \<le> of_nat (rows frame)"
  shows "\<forall>f \<in> set (fst (detect_faces_and_eyes cv frame face_cascade eye_cascade)).
           box_within f (cols frame) (rows frame)"
proof
  fix f
  let ?small = "resize cv frame DETECTION_SCALE DETECTION_SCALE"
  let ?gray = "cvtColor_BGR2GRAY cv ?small"
  assume "f \<in> set (fst (detect_faces_and_eyes cv frame face_cascade eye_cascade))"
  then obtain b where b: "b \<in> set (face_cascade ?gray face_params)"
    and fb: "f = rescale_box DETECTION_SCALE b"
    by (auto simp: detect_faces)
  obtain x y w h where bx: "b = (x, y, w, h)" by (cases b) auto
  from ok b have "box_within b (cols ?gray) (rows ?gray)"
    unfolding cascade_ok_def by blast
  moreover from cvt have "cols ?gray = cols ?small" "rows ?gray = rows ?small"
    unfolding cvtColor_ok_def by simp_all
  ultimately have w: "0 \<le> x" "0 \<le> y" "0 \<le> w" "0 \<le> h"
    "x + w \<le> int (cols ?small)" "y + h \<le> int (rows ?small)"
    by (simp_all add: bx box_within_def)
  from scaled_back_fits [OF c] scaled_back_fits [OF r] w
  show "box_within f (cols frame) (rows frame)"
    by (simp add: fb bx rescale_box_half box_within_def)
qed

lemma stub_cvt_ok: "cvtColor_ok stub_cv2"
  by (simp add: cvtColor_ok_def stub_cv2_def)

theorem faces_within_frame_witness:
  "cascade_ok (stub_corner 30) \<and> cvtColor_ok stub_cv2
   \<and> cols (resize stub_cv2 (blank_frame 480 640) DETECTION_SCALE DETECTION_SCALE) = 320
   \<and> rows (resize stub_cv2 (blank_frame 480 640) DETECTION_SCALE DETECTION_SCALE) = 240
   \<and> fst (detect_faces_and_eyes stub_cv2 (blank_frame 480 640) (stub_corner 30) stub_centre)
        = [(580, 0, 60, 60)]
   \<and> box_within (580, 0, 60, 60) 640 480"
proof -
  let ?frame = "blank_frame 480 640"
  let ?small = "resize stub_cv2 ?frame DETECTION_SCALE DETECTION_SCALE"
  have c: "cols ?small = 320" by code_simp
  have r: "rows ?small = 240" by code_simp
  have f: "fst (detect_faces_and_eyes stub_cv2 ?frame (stub_corner 30) stub_centre) = [(580, 0, 60, 60)]"
    by code_simp
  have hc: "(of_nat (cols ?small) :: rat) / DETECTION_SCALE \<le> of_nat (cols ?frame)"
    unfolding c by (simp add: DETECTION_SCALE_def blank_frame_def)
  have hr: "(of_nat (rows ?small) :: rat) / DETECTION_SCALE \<le> of_nat (rows ?frame)"
    unfolding r by (simp add: DETECTION_SCALE_def blank_frame_def)
  from faces_within_frame [OF stub_corner_ok stub_cvt_ok hc hr, of 30 stub_centre]
  have "box_within (580, 0, 60, 60) 640 480"
    unfolding f by (simp add: blank_frame_def)
  with stub_corner_ok stub_cvt_ok c r f show ?thesis
    by simp
qed

text \<open>
  Stated for every frame, the claim fails: a frame 643 wide is resized to
  \<open>round(321.5) = 322\<close> columns, and a face window that touches the right edge of the
  small image (columns 292 to 322) comes back as columns 584 to 644 of a frame that has
  643.
\<close>

theorem faces_within_frame_counterexample:
  "cascade_ok (stub_corner 30) \<and> cvtColor_ok stub_cv2
   \<and> cols (resize stub_cv2 (blank_frame 480 643) DETECTION_SCALE DETECTION_SCALE) = 322
   \<and> fst (detect_faces_and_eyes stub_cv2 (blank_frame 480 643) (stub_corner 30) stub_centre)
        = [(584, 0, 60, 60)]
   \<and> \<not> box_within (584, 0, 60, 60) (cols (blank_frame 480 643)) (rows (blank_frame 480 643))"
proof -
  let ?frame = "blank_frame 480 643"
  have c: "cols (resize stub_cv2 ?frame DETECTION_SCALE DETECTION_SCALE) = 322" by code_simp
  have f: "fst (detect_faces_and_eyes stub_cv2 ?frame (stub_corner 30) stub_centre) = [(584, 0, 60, 60)]"
    by code_simp
  have n: "\<not> box_within (584, 0, 60, 60) (cols ?frame) (rows ?frame)"
    by (simp add: box_within_def blank_frame_def)
  from stub_corner_ok stub_cvt_ok c f n show ?thesis
    by simp
qed




section \<open>Properties of the capture loop\<close>

lemma iteration_None:
  "cap_read env = None \<Longrightarrow> iteration cv fc ec st env = (True, st, [Warn_capture_failed])"
  by (simp add: iteration_def)

lemma iteration_quit:
  assumes "cap_read env = Some frame" and "wait_key env AND 255 = of_char CHR ''q''"
  shows "iteration cv fc ec st env =
           (False, st\<lparr>fps_calculator := fst (update (fps_calculator st) (clock_update env))\<rparr>,
            shown_events (detect_faces_and_eyes cv frame fc ec)
              (snd (update (fps_calculator st) (clock_update env)))
              ((clock_process_end env - clock_process_start env) * 1000)
            @ [Print_quit])"
  using assms by (simp add: iteration_def Let_def split_beta shown_events_def)

lemma iteration_go:
  assumes "cap_read env = Some frame" and "wait_key env AND 255 \<noteq> of_char CHR ''q''"
  shows "\<exists>more. iteration cv fc ec st env =
           (True,
            st\<lparr>fps_calculator := fst (update (fps_calculator st) (clock_update env)),
               frame_count := frame_count st + 1\<rparr>,
            shown_events (detect_faces_and_eyes cv frame fc ec)
              (snd (update (fps_calculator st) (clock_update env)))
              ((clock_process_end env - clock_process_start env) * 1000)
            @ more)
           \<and> Imshow \<notin> set more"
  using assms by (simp add: iteration_def Let_def split_beta shown_events_def)

lemma count_eye_calls:
  "count_list (map (\<lambda>roi. Eye_classifier_call (rows roi) (cols roi)) rs) Imshow = 0"
  by (induction rs) simp_all

lemma count_shown: "count_list (shown_events d fps pt) Imshow = 1"
  by (simp add: shown_events_def count_eye_calls)

lemma count_list_append: "count_list (xs @ ys) a = count_list xs a + count_list ys a"
  by (induction xs) simp_all

lemma count_list_absent: "a \<notin> set xs \<Longrightarrow> count_list xs a = 0"
  by (induction xs) auto

lemma iteration_counts:
  "iteration cv fc ec st env = (go, st1, evs) \<Longrightarrow>
   frame_count st1 + (if go then 0 else 1) = frame_count st + count_list evs Imshow"
proof (cases "cap_read env")
  case None
  assume "iteration cv fc ec st env = (go, st1, evs)"
  with iteration_None [OF None, of cv fc ec st] show ?thesis by auto
next
  case (Some frame)
  assume it: "iteration cv fc ec st env = (go, st1, evs)"
  show ?thesis
  proof (cases "wait_key env AND 255 = of_char CHR ''q''")
    case True
    from iteration_quit [OF Some True, of cv fc ec st] it show ?thesis
      by (auto simp: count_list_append count_shown)
  next
    case False
    from iteration_go [OF Some False, of cv fc ec st] it show ?thesis
      by (auto simp: count_list_append count_shown count_list_absent)
  qed
qed

lemma run_loop_Cons:
  "run_loop cv fc ec st (env # envs) =
     (if fst (iteration cv fc ec st env)
      then (fst (run_loop cv fc ec (fst (snd (iteration cv fc ec st env))) envs),
            fst (snd (run_loop cv fc ec (fst (snd (iteration cv fc ec st env))) envs)),
            snd (snd (iteration cv fc ec st env))
            @ snd (snd (run_loop cv fc ec (fst (snd (iteration cv fc ec st env))) envs)))
      else iteration cv fc ec st env)"
  by (cases "iteration cv fc ec st env") (auto simp: split_beta)

declare run_loop.simps(2) [simp del]

lemma run_loop_counts:
  "run_loop cv fc ec st envs = (go, st1, evs) \<Longrightarrow>
   frame_count st1 + (if go then 0 else 1) = frame_count st + count_list evs Imshow"
proof (induction envs arbitrary: st go st1 evs)
  case Nil
  then show ?case by auto
next
  case (Cons env envs)
  obtain g s e where it: "iteration cv fc ec st env = (g, s, e)"
    by (cases "iteration cv fc ec st env") auto
  note c1 = iteration_counts [OF it]
  show ?case
  proof (cases g)
    case False
    with Cons.prems it c1 show ?thesis
      by (auto simp: run_loop_Cons)
  next
    case True
    obtain g2 s2 e2 where rl: "run_loop cv fc ec s envs = (g2, s2, e2)"
      by (cases "run_loop cv fc ec s envs") auto
    from Cons.IH [OF rl] c1 True Cons.prems it rl show ?thesis
      by (auto simp: run_loop_Cons count_list_append)
  qed
qed

lemma run_loop_failures:
  "\<forall>env \<in> set envs. cap_read env = None \<Longrightarrow>
   run_loop cv fc ec st envs = (True, st, replicate (length envs) Warn_capture_failed)"
  by (induction envs) (simp_all add: run_loop_Cons iteration_None)

text \<open>
  Claim C9. An iteration in which \<open>cap.read()\<close> returns no frame prints the warning and
  nothing else: the frame count, the FPS calculator and the start time are unchanged, no
  detection or drawing takes place, and the loop goes on. This holds for any number of
  such iterations in a row.
\<close>

theorem capture_failure_only_warns:
  "(cap_read env = None \<longrightarrow>
      iteration cv face_cascade eye_cascade st env = (True, st, [Warn_capture_failed]))
   \<and> ((\<forall>env \<in> set envs. cap_read env = None) \<longrightarrow>
      run_loop cv face_cascade eye_cascade st envs
        = (True, st, replicate (length envs) Warn_capture_failed))"
  by (simp add: iteration_None run_loop_failures)

theorem capture_failure_only_warns_witness:
  "cap_read (stub_tick None (-1) 1) = None
   \<and> iteration stub_cv2 (stub_corner 30) stub_centre
        \<lparr>frame_count = 7, fps_calculator = \<lparr>frame_times = [1], maxlen = 30, last_time = 0\<rparr>,
           start_time = 0\<rparr> (stub_tick None (-1) 1)
      = (True,
         \<lparr>frame_count = 7, fps_calculator = \<lparr>frame_times = [1], maxlen = 30, last_time = 0\<rparr>,
            start_time = 0\<rparr>,
         [Warn_capture_failed])
   \<and> run_loop stub_cv2 (stub_corner 30) stub_centre
        \<lparr>frame_count = 7, fps_calculator = \<lparr>frame_times = [1], maxlen = 30, last_time = 0\<rparr>,
           start_time = 0\<rparr> [stub_tick None (-1) 1, stub_tick None 113 2, stub_tick None 115 3]
      = (True,
         \<lparr>frame_count = 7, fps_calculator = \<lparr>frame_times = [1], maxlen = 30, last_time = 0\<rparr>,
            start_time = 0\<rparr>,
         [Warn_capture_failed, Warn_capture_failed, Warn_capture_failed])"
  using capture_failure_only_warns
          [of "stub_tick None (-1) 1" stub_cv2 "stub_corner 30" stub_centre
              "\<lparr>frame_count = 7, fps_calculator = \<lparr>frame_times = [1], maxlen = 30, last_time = 0\<rparr>,
                 start_time = 0\<rparr>"
              "[stub_tick None (-1) 1, stub_tick None 113 2, stub_tick None 115 3]"]
  by (simp add: stub_tick_def)

text \<open>
  Claim C8. In an iteration that has a frame with \<open>n\<close> detected faces, the face count
  handed to \<open>draw_statistics\<close> is \<open>min n 5\<close>, while the eye classifier is invoked once for
  each of the \<open>n\<close> faces, \<open>draw_detections\<close> is handed all of them, and it draws one face
  rectangle for each.
\<close>

theorem display_cap_only:
  assumes "cap_read env = Some frame"
  shows "case detect_faces_and_eyes cv frame face_cascade eye_cascade of
           (faces, eyes, rois) \<Rightarrow>
             take (length faces + 4) (snd (snd (iteration cv face_cascade eye_cascade st env)))
               = Face_classifier_call
                 # map (\<lambda>roi. Eye_classifier_call (rows roi) (cols roi)) rois
                 @ [Call_draw_detections faces eyes,
                    Call_draw_statistics (min (length faces) 5) (length eyes)
                      (snd (update (fps_calculator st) (clock_update env)))
                      ((clock_process_end env - clock_process_start env) * 1000),
                    Imshow]
             \<and> length rois = length faces
             \<and> rois = map (\<lambda>f. snd (eyes_in_face_region eye_cascade
                                       (cvtColor_BGR2GRAY cv frame) f)) faces
             \<and> take (length faces) (draw_detections faces eyes)
                 = map (\<lambda>(x, y, w, h). Rectangle (x, y) (x + w, y + h) COLOR_FACE 2) faces"
proof -
  let ?d = "detect_faces_and_eyes cv frame face_cascade eye_cascade"
  let ?fps = "snd (update (fps_calculator st) (clock_update env))"
  let ?pt = "(clock_process_end env - clock_process_start env) * 1000"
  have rois: "snd (snd ?d) = map (\<lambda>f. snd (eyes_in_face_region eye_cascade
                                       (cvtColor_BGR2GRAY cv frame) f)) (fst ?d)"
    by (simp only: detect_rois eye_pass_rois)
  then have len: "length (snd (snd ?d)) = length (fst ?d)"
    by simp
  have sh: "length (shown_events ?d ?fps ?pt) = length (fst ?d) + 4"
    by (simp add: shown_events_def len)
  have "\<exists>more. snd (snd (iteration cv face_cascade eye_cascade st env))
                 = shown_events ?d ?fps ?pt @ more"
  proof (cases "wait_key env AND 255 = of_char CHR ''q''")
    case True
    from iteration_quit [OF assms True, of cv face_cascade eye_cascade st] show ?thesis
      by simp
  next
    case False
    from iteration_go [OF assms False, of cv face_cascade eye_cascade st] show ?thesis
      by auto
  qed
  then obtain more where "snd (snd (iteration cv face_cascade eye_cascade st env))
                 = shown_events ?d ?fps ?pt @ more" ..
  then have "take (length (fst ?d) + 4) (snd (snd (iteration cv face_cascade eye_cascade st env)))
               = shown_events ?d ?fps ?pt"
    using sh by simp
  moreover have "take (length (fst ?d)) (draw_detections (fst ?d) (fst (snd ?d)))
                 = map (\<lambda>(x, y, w, h). Rectangle (x, y) (x + w, y + h) COLOR_FACE 2) (fst ?d)"
    by (simp add: draw_detections_def)
  ultimately show ?thesis
    using rois len by (simp add: split_beta shown_events_def)
qed

theorem display_cap_only_witness:
  "cap_read (stub_tick (Some (blank_frame 480 640)) (-1) 1) = Some (blank_frame 480 640)
   \<and> fst (detect_faces_and_eyes stub_cv2 (blank_frame 480 640) (stub_repeat 7) stub_centre)
        = replicate 7 (0, 0, 60, 60)
   \<and> take 11 (snd (snd (iteration stub_cv2 (stub_repeat 7) stub_centre (stub_state 0)
                          (stub_tick (Some (blank_frame 480 640)) (-1) 1))))
        = Face_classifier_call # replicate 7 (Eye_classifier_call 60 60)
          @ [Call_draw_detections (replicate 7 (0, 0, 60, 60)) (replicate 7 (15, 15, 30, 30)),
             Call_draw_statistics 5 7 (100 / 101) 10, Imshow]"
proof -
  let ?frame = "blank_frame 480 640"
  let ?env = "stub_tick (Some ?frame) (-1) 1"
  let ?d = "detect_faces_and_eyes stub_cv2 ?frame (stub_repeat 7) stub_centre"
  have c: "cap_read ?env = Some ?frame"
    by (simp add: stub_tick_def)
  have f: "fst ?d = replicate 7 (0, 0, 60, 60)"
    by code_simp
  have e: "fst (snd ?d) = replicate 7 (15, 15, 30, 30)"
    by code_simp
  have r: "map (\<lambda>roi. Eye_classifier_call (rows roi) (cols roi)) (snd (snd ?d))
             = replicate 7 (Eye_classifier_call 60 60)"
    by code_simp
  have u: "snd (update (fps_calculator (stub_state 0)) (clock_update ?env)) = 100 / 101"
    by (simp add: stub_state_def stub_tick_def update_def Let_def deque_append_def)
  have p: "(clock_process_end ?env - clock_process_start ?env) * 1000 = 10"
    by (simp add: stub_tick_def)
  from display_cap_only [OF c, of stub_cv2 "stub_repeat 7" stub_centre "stub_state 0"]
  have "take (length (fst ?d) + 4)
          (snd (snd (iteration stub_cv2 (stub_repeat 7) stub_centre (stub_state 0) ?env)))
        = Face_classifier_call
          # map (\<lambda>roi. Eye_classifier_call (rows roi) (cols roi)) (snd (snd ?d))
          @ [Call_draw_detections (fst ?d) (fst (snd ?d)),
             Call_draw_statistics (min (length (fst ?d)) 5) (length (fst (snd ?d)))
               (snd (update (fps_calculator (stub_state 0)) (clock_update ?env)))
               ((clock_process_end ?env - clock_process_start ?env) * 1000),
             Imshow]"
    by (simp add: split_beta)
  then have "take 11 (snd (snd (iteration stub_cv2 (stub_repeat 7) stub_centre (stub_state 0) ?env)))
        = Face_classifier_call # replicate 7 (Eye_classifier_call 60 60)
          @ [Call_draw_detections (replicate 7 (0, 0, 60, 60)) (replicate 7 (15, 15, 30, 30)),
             Call_draw_statistics 5 7 (100 / 101) 10, Imshow]"
    unfolding r u p unfolding f e by simp
  with c f show ?thesis
    by (simp only: simp_thms)
qed

lemma no_performance_shown: "filter is_performance (shown_events d fps pt) = []"
  by (simp add: shown_events_def filter_empty_conv image_iff)

lemma finally_block_cong:
  "frame_count a = frame_count b \<Longrightarrow> start_time a = start_time b \<Longrightarrow>
   finally_block a now = finally_block b now"
  by (simp add: finally_block_def Let_def)

text \<open>
  Claim C10. The iteration in which \<open>q\<close> is pressed detects, draws and shows its frame,
  then leaves the loop with the frame count as it was: no performance line is printed in
  it, and the \<open>finally\<close> block prints the totals it would have printed before that frame.
  With any other key the count goes up by one. So in a session that ended with \<open>q\<close> the
  frames shown are one more than the frames counted.
\<close>

theorem quit_frame_not_counted:
  "(cap_read env = Some frame \<longrightarrow> wait_key env AND 255 = of_char CHR ''q'' \<longrightarrow>
      (case iteration cv face_cascade eye_cascade st env of
         (go, st1, evs) \<Rightarrow>
           \<not> go \<and> frame_count st1 = frame_count st \<and> start_time st1 = start_time st
           \<and> count_list evs Imshow = 1 \<and> filter is_performance evs = []
           \<and> last evs = Print_quit
           \<and> finally_block st1 now = finally_block st now))
   \<and> (cap_read env = Some frame \<longrightarrow> wait_key env AND 255 \<noteq> of_char CHR ''q'' \<longrightarrow>
      (case iteration cv face_cascade eye_cascade st env of
         (go, st1, evs) \<Rightarrow>
           go \<and> frame_count st1 = frame_count st + 1 \<and> count_list evs Imshow = 1))
   \<and> (run_loop cv face_cascade eye_cascade st envs = (False, st2, evs2) \<longrightarrow>
        frame_count st2 + 1 = frame_count st + count_list evs2 Imshow)"
proof (intro conjI impI)
  assume a: "cap_read env = Some frame" "wait_key env AND 255 = of_char CHR ''q''"
  show "case iteration cv face_cascade eye_cascade st env of
         (go, st1, evs) \<Rightarrow>
           \<not> go \<and> frame_count st1 = frame_count st \<and> start_time st1 = start_time st
           \<and> count_list evs Imshow = 1 \<and> filter is_performance evs = []
           \<and> last evs = Print_quit
           \<and> finally_block st1 now = finally_block st now"
  proof -
    let ?st1 = "st\<lparr>fps_calculator := fst (update (fps_calculator st) (clock_update env))\<rparr>"
    have "finally_block ?st1 now = finally_block st now"
      by (rule finally_block_cong) simp_all
    then show ?thesis
      unfolding iteration_quit [OF a]
      by (simp add: count_list_append count_shown no_performance_shown)
  qed
next
  assume a: "cap_read env = Some frame" "wait_key env AND 255 \<noteq> of_char CHR ''q''"
  from iteration_go [OF a, of cv face_cascade eye_cascade st]
  show "case iteration cv face_cascade eye_cascade st env of
         (go, st1, evs) \<Rightarrow>
           go \<and> frame_count st1 = frame_count st + 1 \<and> count_list evs Imshow = 1"
    by (auto simp: count_list_append count_shown count_list_absent)
next
  assume "run_loop cv face_cascade eye_cascade st envs = (False, st2, evs2)"
  from run_loop_counts [OF this] show "frame_count st2 + 1 = frame_count st + count_list evs2 Imshow"
    by simp
qed

theorem quit_frame_not_counted_witness:
  "(case iteration stub_cv2 (stub_corner 30) stub_centre (stub_state 99)
           (stub_tick (Some (blank_frame 480 640)) 113 1) of
      (go, st1, evs) \<Rightarrow>
        \<not> go \<and> frame_count st1 = 99 \<and> count_list evs Imshow = 1
        \<and> filter is_performance evs = []
        \<and> finally_block st1 2 = [Release_camera, Destroy_all_windows, Print_session 99 2 (99 / 2)])
   \<and> (case iteration stub_cv2 (stub_corner 30) stub_centre (stub_state 99)
           (stub_tick (Some (blank_frame 480 640)) (-1) 1) of
      (go, st1, evs) \<Rightarrow> go \<and> frame_count st1 = 100 \<and> count_list evs Imshow = 1)
   \<and> fst (run_loop stub_cv2 (stub_corner 30) stub_centre (stub_state 0)
        [stub_tick (Some (blank_frame 480 640)) (-1) 1, stub_tick None (-1) 2,
         stub_tick (Some (blank_frame 480 640)) 113 3]) = False
   \<and> frame_count (fst (snd (run_loop stub_cv2 (stub_corner 30) stub_centre (stub_state 0)
        [stub_tick (Some (blank_frame 480 640)) (-1) 1, stub_tick None (-1) 2,
         stub_tick (Some (blank_frame 480 640)) 113 3]))) = 1
   \<and> count_list (snd (snd (run_loop stub_cv2 (stub_corner 30) stub_centre (stub_state 0)
        [stub_tick (Some (blank_frame 480 640)) (-1) 1, stub_tick None (-1) 2,
         stub_tick (Some (blank_frame 480 640)) 113 3]))) Imshow = 2"
proof -
  let ?frame = "blank_frame 480 640"
  let ?q = "stub_tick (Some ?frame) 113 1"
  let ?n = "stub_tick (Some ?frame) (-1) 1"
  let ?script = "[stub_tick (Some ?frame) (-1) 1, stub_tick None (-1) 2, stub_tick (Some ?frame) 113 3]"
  let ?run = "run_loop stub_cv2 (stub_corner 30) stub_centre (stub_state 0) ?script"
  have q: "cap_read ?q = Some ?frame" "wait_key ?q AND 255 = of_char CHR ''q''"
    by (simp_all add: stub_tick_def)
  have n: "cap_read ?n = Some ?frame" "wait_key ?n AND 255 \<noteq> of_char CHR ''q''"
    by (simp_all add: stub_tick_def)
  have stopped: "fst ?run = False"
    by code_simp
  then have r: "?run = (False, fst (snd ?run), snd (snd ?run))"
    by (simp add: prod_eq_iff)
  have shown: "count_list (snd (snd ?run)) Imshow = 2"
    by code_simp
  note t = quit_frame_not_counted
             [where cv = stub_cv2 and face_cascade = "stub_corner 30" and eye_cascade = stub_centre
                and frame = ?frame and now = 2]
  from t [where env = ?q and st = "stub_state 99"] q
  have 1: "case iteration stub_cv2 (stub_corner 30) stub_centre (stub_state 99) ?q of
      (go, st1, evs) \<Rightarrow>
        \<not> go \<and> frame_count st1 = 99 \<and> count_list evs Imshow = 1
        \<and> filter is_performance evs = []
        \<and> finally_block st1 2 = [Release_camera, Destroy_all_windows, Print_session 99 2 (99 / 2)]"
    by (simp add: split_beta stub_state_def finally_block_def)
  from t [where env = ?n and st = "stub_state 99"] n
  have 2: "case iteration stub_cv2 (stub_corner 30) stub_centre (stub_state 99) ?n of
      (go, st1, evs) \<Rightarrow> go \<and> frame_count st1 = 100 \<and> count_list evs Imshow = 1"
    by (simp add: split_beta stub_state_def)
  from t [where st = "stub_state 0" and envs = ?script and ?st2.0 = "fst (snd ?run)"
            and ?evs2.0 = "snd (snd ?run)"] r
  have 3: "frame_count (fst (snd ?run)) + 1 = frame_count (stub_state 0) + count_list (snd (snd ?run)) Imshow"
    by blast
  then have 4: "frame_count (fst (snd ?run)) = 1"
    unfolding shown by (simp add: stub_state_def)
  from 1 2 stopped 4 shown show ?thesis
    by (simp only: simp_thms)
qed

end
